theory Spec2Isabelle
  imports Main "HOL-Library.AList"
begin

section \<open>The Extended Volumes API extension (extended_volumes.py)\<close>

text \<open>
  The module is a controller extension of the servers resource. It calls a compute
  service and a volume service, asks a policy engine, and turns the services' exceptions
  into HTTP errors. The services are outside the module, so they are parameters of the
  model: each answers a call from the calls made before it, which lets an answer change
  from one call to the next. Every call the controller makes is appended to a trace.
\<close>

subsection \<open>Values\<close>

text \<open>A deserialised request or response body: Python's \<open>None\<close>, booleans, numbers,
  strings, lists and dicts (a dict as an association list read with \<open>map_of\<close>).\<close>

datatype json =
    JNull
  | JBool bool
  | JNum int
  | JStr string
  | JList "json list"
  | JObj "(string \<times> json) list"

text \<open>The request context, the compute instance and the volume are opaque to the
  module: it only hands them on.\<close>

datatype request_context = RequestContext string

datatype db_instance = Instance string

datatype volume = Volume string

text \<open>A block device mapping. The module reads \<open>bdm['volume_id']\<close> only; the column is a
  string or \<open>None\<close>.\<close>

record bdm =
  bdm_volume_id :: "string option"

text \<open>The exceptions of \<open>nova.exception\<close> that the module names, each with the text its
  \<open>format_message()\<close> returns, and any other exception a service may raise. An exception
  of a subclass counts as one of the class, as it does for \<open>except\<close>.\<close>

datatype exn =
    InstanceNotFound string
  | VolumeNotFound string
  | InstanceInvalidState string
  | InvalidVolume string
  | InvalidDevicePath string
  | VolumeUnattached string
  | OtherException string

fun format_message :: "exn \<Rightarrow> string" where
  "format_message (InstanceNotFound m) = m"
| "format_message (VolumeNotFound m) = m"
| "format_message (InstanceInvalidState m) = m"
| "format_message (InvalidVolume m) = m"
| "format_message (InvalidDevicePath m) = m"
| "format_message (VolumeUnattached m) = m"
| "format_message (OtherException m) = m"

text \<open>Message texts. \<open>template % args\<close> is kept as the template with its arguments: one
  value for a single \<open>%s\<close>, a dict for \<open>%(name)s\<close>.\<close>

datatype fmt_value = Val json | Ctx request_context

datatype fmt_args = Single json | Named "(string \<times> fmt_value) list"

datatype message =
    Text string
  | Percent string fmt_args

text \<open>\<open>webob.exc\<close> takes the text as its first positional argument (the detail) or as
  \<open>explanation=\<close>.\<close>

datatype http_text = Detail message | Explanation message

text \<open>What a handler can raise: the HTTP errors of \<open>webob.exc\<close> (the module raises three
  of them itself; \<open>HTTPForbidden\<close> is the answer to a policy check that fails closed), the
  errors of Python's own subscripting, and a service exception that no \<open>except\<close> clause
  catches.\<close>

datatype error =
    HTTPForbidden http_text
  | HTTPBadRequest http_text
  | HTTPNotFound http_text
  | HTTPConflict http_text
  | KeyError string
  | TypeError
  | AttributeError
  | Raised exn

subsection \<open>Python's dict operations on deserialised values\<close>

text \<open>\<open>d[k]\<close>: \<open>KeyError\<close> on a dict without the key, \<open>TypeError\<close> on a value that a
  string cannot index.\<close>

fun subscript :: "json \<Rightarrow> string \<Rightarrow> error + json" where
  "subscript (JObj d) k = (case map_of d k of None \<Rightarrow> Inl (KeyError k) | Some v \<Rightarrow> Inr v)"
| "subscript _ k = Inl TypeError"

text \<open>\<open>d.get(k)\<close>: \<open>None\<close> for a missing key, \<open>AttributeError\<close> on a value that is no
  dict.\<close>

fun dict_get :: "json \<Rightarrow> string \<Rightarrow> error + json" where
  "dict_get (JObj d) k = (case map_of d k of None \<Rightarrow> Inr JNull | Some v \<Rightarrow> Inr v)"
| "dict_get _ k = Inl AttributeError"

text \<open>\<open>d[k] = v\<close>.\<close>

fun setitem :: "json \<Rightarrow> string \<Rightarrow> json \<Rightarrow> error + json" where
  "setitem (JObj d) k v = Inr (JObj (AList.update k v d))"
| "setitem _ k v = Inl TypeError"

text \<open>\<open>list(x)\<close>: the items of a list, the keys of a dict, the characters of a
  string.\<close>

fun py_list :: "json \<Rightarrow> error + json list" where
  "py_list (JList xs) = Inr xs"
| "py_list (JObj d) = Inr (map (\<lambda>kv. JStr (fst kv)) d)"
| "py_list (JStr s) = Inr (map (\<lambda>c. JStr [c]) s)"
| "py_list _ = Inl TypeError"

text \<open>The truth value of \<open>bdm['volume_id']\<close>: \<open>None\<close> and the empty string are false.\<close>

fun truthy :: "string option \<Rightarrow> bool" where
  "truthy None = False"
| "truthy (Some s) = (s \<noteq> [])"

text \<open>A column value as it appears in a response body.\<close>

fun json_of :: "string option \<Rightarrow> json" where
  "json_of None = JNull"
| "json_of (Some s) = JStr s"

text \<open>\<open>bdm['volume_id'] != volume_id\<close>, the right side taken from the request body: a
  string equals the same string, \<open>None\<close> equals \<open>None\<close>, nothing else is equal.\<close>

definition differs :: "string option \<Rightarrow> json \<Rightarrow> bool" where
  "differs c v = (json_of c \<noteq> v)"

subsection \<open>The services and the trace of calls\<close>

datatype call =
    Compute_get request_context string
  | Compute_get_instance_bdms request_context db_instance
  | Compute_attach_volume request_context db_instance json json
  | Compute_detach_volume request_context db_instance volume
  | Volume_get request_context json

datatype log_record = Audit message "request_context option" | Debug message

record world =
  calls :: "call list"
  logged :: "log_record list"

text \<open>
  The collaborators of the module, none of them defined in it:
  \<^item> \<open>extensions.soft_extension_authorizer(api_name, extension_name)\<close>, which gives the
    function that is called with the context: it returns a truth value or raises;
  \<^item> \<open>uuidutils.is_uuid_like\<close> and \<open>Controller.is_valid_body\<close>;
  \<^item> \<open>common.raise_http_conflict_for_instance_invalid_state(exc, action)\<close>, with the error
    it raises, or \<open>Inr ()\<close> should it return;
  \<^item> the methods of \<open>compute.API()\<close> and \<open>volume.API()\<close>, each taking the calls made so
    far, then its arguments.
\<close>

record services =
  soft_extension_authorizer :: "string \<Rightarrow> string \<Rightarrow> request_context \<Rightarrow> error + bool"
  is_uuid_like :: "json \<Rightarrow> bool"
  is_valid_body :: "json \<Rightarrow> string \<Rightarrow> bool"
  raise_http_conflict_for_instance_invalid_state :: "exn \<Rightarrow> string \<Rightarrow> error + unit"
  compute_get :: "call list \<Rightarrow> request_context \<Rightarrow> string \<Rightarrow> exn + db_instance"
  compute_get_instance_bdms :: "call list \<Rightarrow> request_context \<Rightarrow> db_instance \<Rightarrow> exn + bdm list"
  compute_attach_volume ::
    "call list \<Rightarrow> request_context \<Rightarrow> db_instance \<Rightarrow> json \<Rightarrow> json \<Rightarrow> exn + unit"
  compute_detach_volume :: "call list \<Rightarrow> request_context \<Rightarrow> db_instance \<Rightarrow> volume \<Rightarrow> exn + unit"
  volume_get :: "call list \<Rightarrow> request_context \<Rightarrow> json \<Rightarrow> exn + volume"

definition record_call :: "call \<Rightarrow> world \<Rightarrow> world" where
  "record_call c w = w\<lparr>calls := calls w @ [c]\<rparr>"

definition call_compute_get ::
  "services \<Rightarrow> request_context \<Rightarrow> string \<Rightarrow> world \<Rightarrow> (exn + db_instance) \<times> world" where
  "call_compute_get svc ctx server_id w =
     (compute_get svc (calls w) ctx server_id, record_call (Compute_get ctx server_id) w)"

definition call_get_instance_bdms ::
  "services \<Rightarrow> request_context \<Rightarrow> db_instance \<Rightarrow> world \<Rightarrow> (exn + bdm list) \<times> world" where
  "call_get_instance_bdms svc ctx inst w =
     (compute_get_instance_bdms svc (calls w) ctx inst,
      record_call (Compute_get_instance_bdms ctx inst) w)"

definition call_attach_volume ::
  "services \<Rightarrow> request_context \<Rightarrow> db_instance \<Rightarrow> json \<Rightarrow> json \<Rightarrow> world \<Rightarrow> (exn + unit) \<times> world" where
  "call_attach_volume svc ctx inst vid device w =
     (compute_attach_volume svc (calls w) ctx inst vid device,
      record_call (Compute_attach_volume ctx inst vid device) w)"

definition call_detach_volume ::
  "services \<Rightarrow> request_context \<Rightarrow> db_instance \<Rightarrow> volume \<Rightarrow> world \<Rightarrow> (exn + unit) \<times> world" where
  "call_detach_volume svc ctx inst vol w =
     (compute_detach_volume svc (calls w) ctx inst vol,
      record_call (Compute_detach_volume ctx inst vol) w)"

definition call_volume_get ::
  "services \<Rightarrow> request_context \<Rightarrow> json \<Rightarrow> world \<Rightarrow> (exn + volume) \<times> world" where
  "call_volume_get svc ctx vid w =
     (volume_get svc (calls w) ctx vid, record_call (Volume_get ctx vid) w)"

definition log_record :: "log_record \<Rightarrow> world \<Rightarrow> world" where
  "log_record r w = w\<lparr>logged := logged w @ [r]\<rparr>"

subsection \<open>The framework around the controller\<close>

text \<open>The request: \<open>req.environ['nova.context']\<close> and the request's cache of database
  instances, \<open>req.get_db_instance\<close>, whose answer is handed on as it is.\<close>

record request =
  nova_context :: request_context
  get_db_instance :: "json \<Rightarrow> db_instance"

datatype template = ExtendedVolumesServerTemplate | ExtendedVolumesServersTemplate

text \<open>The response object of the core API: its body \<open>obj\<close>, and the templates handed to
  \<open>resp_obj.attach\<close> with the keyword of each.\<close>

record resp_obj =
  obj :: json
  attached :: "(string \<times> template) list"

definition resp_attach :: "string \<Rightarrow> template \<Rightarrow> resp_obj \<Rightarrow> resp_obj" where
  "resp_attach kw t r = r\<lparr>attached := attached r @ [(kw, t)]\<rparr>"

definition ALIAS :: string where
  "ALIAS = ''os-extended-volumes''"

text \<open>The three authorizers of the module, all made by the same factory.\<close>

definition authorize :: "services \<Rightarrow> request_context \<Rightarrow> error + bool" where
  "authorize svc = soft_extension_authorizer svc ''compute'' (''v3:'' @ ALIAS)"

definition authorize_attach :: "services \<Rightarrow> request_context \<Rightarrow> error + bool" where
  "authorize_attach svc = soft_extension_authorizer svc ''compute'' (''v3:'' @ ALIAS @ '':attach'')"

definition authorize_detach :: "services \<Rightarrow> request_context \<Rightarrow> error + bool" where
  "authorize_detach svc = soft_extension_authorizer svc ''compute'' (''v3:'' @ ALIAS @ '':detach'')"

text \<open>A response: its status code and its body, if it has one.\<close>

datatype response = Response nat "json option"

text \<open>
  Modelled from the spec: the decorator \<open>wsgi.response\<close> of \<open>nova.api.openstack.wsgi\<close> and
  the dispatch that reads the code it sets are not in the module. The spec: "No response
  body on success; status
  code 202 signals the operation was accepted": a handler that returns \<open>None\<close> is answered
  with the decorator's code and no body, a handler that raises with its error.
\<close>

fun wsgi_response :: "nat \<Rightarrow> (error + unit) \<times> world \<Rightarrow> (error + response) \<times> world" where
  "wsgi_response code (Inl e, w) = (Inl e, w)"
| "wsgi_response code (Inr u, w) = (Inr (Response code None), w)"

subsection \<open>ExtendedVolumesController\<close>

text \<open>\<open>_extend_server\<close>: the server dict with the key set, or what was raised.\<close>

definition volumes_attached_key :: string where
  "volumes_attached_key = ALIAS @ '':volumes_attached''"

definition extend_server ::
  "services \<Rightarrow> request_context \<Rightarrow> json \<Rightarrow> db_instance \<Rightarrow> world \<Rightarrow> (error + json) \<times> world" where
  "extend_server svc ctx server inst w =
     (case call_get_instance_bdms svc ctx inst w of
        (Inl e, w') \<Rightarrow> (Inl (Raised e), w')
      | (Inr bdms, w') \<Rightarrow>
          (let volume_ids = map bdm_volume_id (filter (\<lambda>b. truthy (bdm_volume_id b)) bdms);
               key = volumes_attached_key
           in (setitem server key (JList (map (\<lambda>v. JObj [(''id'', json_of v)]) volume_ids)), w')))"

text \<open>\<open>show\<close>, which tests what \<open>authorize\<close> returns. The server dict is changed in place,
  so the changed dict is the one under \<open>resp_obj.obj['server']\<close> afterwards. What was done
  before an exception stays done.\<close>

definition show_extends ::
  "services \<Rightarrow> request \<Rightarrow> resp_obj \<Rightarrow> string \<Rightarrow> world \<Rightarrow> (error + unit) \<times> resp_obj \<times> world" where
  "show_extends svc req resp ident w =
     (let ctx = nova_context req in
      case authorize svc ctx of
        Inl e \<Rightarrow> (Inl e, resp, w)
      | Inr False \<Rightarrow> (Inr (), resp, w)
      | Inr True \<Rightarrow>
        (let resp1 = resp_attach ''xml'' ExtendedVolumesServerTemplate resp in
         case subscript (obj resp1) ''server'' of
           Inl e \<Rightarrow> (Inl e, resp1, w)
         | Inr server \<Rightarrow>
            (case subscript server ''id'' of
               Inl e \<Rightarrow> (Inl e, resp1, w)
             | Inr sid \<Rightarrow>
                (let inst = get_db_instance req sid in
                 case extend_server svc ctx server inst w of
                   (Inl e, w') \<Rightarrow> (Inl e, resp1, w')
                 | (Inr server', w') \<Rightarrow>
                    (case setitem (obj resp1) ''server'' server' of
                       Inl e \<Rightarrow> (Inl e, resp1, w')
                     | Inr obj' \<Rightarrow> (Inr (), resp1\<lparr>obj := obj'\<rparr>, w'))))))"

text \<open>The loop of \<open>detail\<close> over the copied list: the servers changed so far, and the error
  if one was raised.\<close>

fun detail_loop ::
  "services \<Rightarrow> request \<Rightarrow> request_context \<Rightarrow> json list \<Rightarrow> world
     \<Rightarrow> (error option \<times> json list) \<times> world" where
  "detail_loop svc req ctx [] w = ((None, []), w)"
| "detail_loop svc req ctx (server # servers) w =
     (case subscript server ''id'' of
        Inl e \<Rightarrow> ((Some e, server # servers), w)
      | Inr sid \<Rightarrow>
         (let inst = get_db_instance req sid in
          case extend_server svc ctx server inst w of
            (Inl e, w') \<Rightarrow> ((Some e, server # servers), w')
          | (Inr server', w') \<Rightarrow>
             (case detail_loop svc req ctx servers w' of
                ((r, servers'), w'') \<Rightarrow> ((r, server' # servers'), w''))))"

text \<open>\<open>detail\<close>. \<open>list(...)\<close> copies the list, not the dicts in it: when the value under
  \<open>'servers'\<close> is a list, the changed dicts are its items afterwards. When it is a dict or
  a string, the copy holds strings, which the loop cannot change.\<close>

definition detail ::
  "services \<Rightarrow> request \<Rightarrow> resp_obj \<Rightarrow> world \<Rightarrow> (error + unit) \<times> resp_obj \<times> world" where
  "detail svc req resp w =
     (let ctx = nova_context req in
      case authorize svc ctx of
        Inl e \<Rightarrow> (Inl e, resp, w)
      | Inr False \<Rightarrow> (Inr (), resp, w)
      | Inr True \<Rightarrow>
        (let resp1 = resp_attach ''xml'' ExtendedVolumesServersTemplate resp in
         case subscript (obj resp1) ''servers'' of
           Inl e \<Rightarrow> (Inl e, resp1, w)
         | Inr v \<Rightarrow>
            (case py_list v of
               Inl e \<Rightarrow> (Inl e, resp1, w)
             | Inr servers \<Rightarrow>
                (case detail_loop svc req ctx servers w of
                   ((r, servers'), w') \<Rightarrow>
                     (let resp2 =
                        (case v of
                           JList xs \<Rightarrow>
                             (case setitem (obj resp1) ''servers'' (JList servers') of
                                Inl e \<Rightarrow> resp1
                              | Inr obj' \<Rightarrow> resp1\<lparr>obj := obj'\<rparr>)
                         | _ \<Rightarrow> resp1)
                      in (case r of None \<Rightarrow> Inr () | Some e \<Rightarrow> Inl e, resp2, w'))))))"

text \<open>\<open>_validate_volume_id\<close>.\<close>

definition validate_volume_id :: "services \<Rightarrow> json \<Rightarrow> error + unit" where
  "validate_volume_id svc vid =
     (if \<not> is_uuid_like svc vid then
        Inl (HTTPBadRequest (Explanation
          (Percent ''Bad volumeId format: volumeId is not in proper format (%s)'' (Single vid))))
      else Inr ())"

text \<open>The \<open>except\<close> clauses of \<open>attach\<close>, in their order; an exception that none of them
  names goes on to the caller. A clause that ends without raising ends the \<open>try\<close>
  statement, and with it the handler.\<close>

fun attach_except :: "services \<Rightarrow> exn \<Rightarrow> error + unit" where
  "attach_except svc (InstanceNotFound m) =
     Inl (HTTPNotFound (Explanation (Text (format_message (InstanceNotFound m)))))"
| "attach_except svc (VolumeNotFound m) =
     Inl (HTTPNotFound (Explanation (Text (format_message (VolumeNotFound m)))))"
| "attach_except svc (InstanceInvalidState m) =
     raise_http_conflict_for_instance_invalid_state svc (InstanceInvalidState m) ''attach_volume''"
| "attach_except svc (InvalidVolume m) =
     Inl (HTTPBadRequest (Explanation (Text (format_message (InvalidVolume m)))))"
| "attach_except svc (InvalidDevicePath m) =
     Inl (HTTPBadRequest (Explanation (Text (format_message (InvalidDevicePath m)))))"
| "attach_except svc e = Inl (Raised e)"

text \<open>\<open>attach\<close>, the handler as it is written: it returns \<open>None\<close> or raises. The call of
  \<open>authorize_attach\<close> is a statement: what it raises goes on to the caller, what it
  returns is dropped.\<close>

definition attach_handler ::
  "services \<Rightarrow> request \<Rightarrow> string \<Rightarrow> json \<Rightarrow> world \<Rightarrow> (error + unit) \<times> world" where
  "attach_handler svc req ident body w =
     (let server_id = ident;
          ctx = nova_context req
      in
      case authorize_attach svc ctx of
        Inl e \<Rightarrow> (Inl e, w)
      | Inr unused \<Rightarrow>
      (if \<not> is_valid_body svc body ''attach'' then
        (Inl (HTTPBadRequest (Detail (Text ''The request body invalid''))), w)
      else
        (case subscript body ''attach'' of
           Inl e \<Rightarrow> (Inl e, w)
         | Inr a \<Rightarrow>
        (case subscript a ''volume_id'' of
           Inl e \<Rightarrow> (Inl e, w)
         | Inr vid \<Rightarrow>
        (case dict_get a ''device'' of
           Inl e \<Rightarrow> (Inl e, w)
         | Inr device \<Rightarrow>
        (case validate_volume_id svc vid of
           Inl e \<Rightarrow> (Inl e, w)
         | Inr u \<Rightarrow>
        (let w1 = log_record
               (Audit (Percent ''Attach volume %(volume_id)s to instance %(server_id)s at %(device)s''
                        (Named [(''volume_id'', Val vid), (''device'', Val device),
                                (''server_id'', Val (JStr server_id))]))
                      (Some ctx)) w
         in
         case call_compute_get svc ctx server_id w1 of
           (Inl e, w2) \<Rightarrow> (attach_except svc e, w2)
         | (Inr inst, w2) \<Rightarrow>
            (case call_attach_volume svc ctx inst vid device w2 of
               (Inl e, w3) \<Rightarrow> (attach_except svc e, w3)
             | (Inr u', w3) \<Rightarrow> (Inr (), w3)))))))))"

text \<open>\<open>attach\<close> under \<open>@wsgi.response(202)\<close>.\<close>

definition attach ::
  "services \<Rightarrow> request \<Rightarrow> string \<Rightarrow> json \<Rightarrow> world \<Rightarrow> (error + response) \<times> world" where
  "attach svc req ident body w = wsgi_response 202 (attach_handler svc req ident body w)"

text \<open>The text of both \<open>HTTPNotFound\<close> errors of \<open>detach\<close>.\<close>

definition not_attached_msg :: "string \<Rightarrow> json \<Rightarrow> message" where
  "not_attached_msg server_id vid =
     Percent ''Volume %(volume_id)s is not attached to the instance %(server_id)s''
       (Named [(''server_id'', Val (JStr server_id)), (''volume_id'', Val vid)])"

text \<open>The \<open>for ... else\<close> of \<open>detach\<close>: \<open>break\<close> after a detach that returned, the next
  mapping after an \<open>except\<close> clause that ends without raising, as the one for
  \<open>VolumeUnattached\<close> does, and the \<open>else\<close> branch when the mappings run out.\<close>

fun detach_scan ::
  "services \<Rightarrow> request_context \<Rightarrow> db_instance \<Rightarrow> volume \<Rightarrow> string \<Rightarrow> json \<Rightarrow> bdm list \<Rightarrow> world
     \<Rightarrow> (error + unit) \<times> world" where
  "detach_scan svc ctx inst vol server_id vid [] w =
     (Inl (HTTPNotFound (Explanation (not_attached_msg server_id vid))), w)"
| "detach_scan svc ctx inst vol server_id vid (b # bdms) w =
     (if differs (bdm_volume_id b) vid then detach_scan svc ctx inst vol server_id vid bdms w
      else
        (case call_detach_volume svc ctx inst vol w of
           (Inr u, w') \<Rightarrow> (Inr (), w')
         | (Inl (VolumeUnattached m), w') \<Rightarrow> detach_scan svc ctx inst vol server_id vid bdms w'
         | (Inl (InvalidVolume m), w') \<Rightarrow>
             (Inl (HTTPBadRequest (Explanation (Text (format_message (InvalidVolume m))))), w')
         | (Inl (InstanceInvalidState m), w') \<Rightarrow>
             (case raise_http_conflict_for_instance_invalid_state svc
                     (InstanceInvalidState m) ''detach_volume'' of
                Inl e \<Rightarrow> (Inl e, w')
              | Inr u \<Rightarrow> detach_scan svc ctx inst vol server_id vid bdms w')
         | (Inl e, w') \<Rightarrow> (Inl (Raised e), w')))"

text \<open>\<open>detach\<close>, the handler as it is written; \<open>authorize_detach\<close> is called as in
  \<open>attach\<close>, and the body is read without a check of its shape.\<close>

definition detach_handler ::
  "services \<Rightarrow> request \<Rightarrow> string \<Rightarrow> json \<Rightarrow> world \<Rightarrow> (error + unit) \<times> world" where
  "detach_handler svc req ident body w =
     (let server_id = ident;
          ctx = nova_context req
      in
      case authorize_detach svc ctx of
        Inl e \<Rightarrow> (Inl e, w)
      | Inr unused \<Rightarrow>
      (case subscript body ''detach'' of
        Inl e \<Rightarrow> (Inl e, w)
      | Inr d \<Rightarrow>
      (case subscript d ''volume_id'' of
         Inl e \<Rightarrow> (Inl e, w)
       | Inr vid \<Rightarrow>
      (let w1 = log_record
             (Audit (Percent ''Detach volume %(volume_id)s from instance %(server_id)s''
                      (Named [(''volume_id'', Val vid), (''server_id'', Val (JStr ident)),
                              (''context'', Ctx ctx)]))
                    None) w
       in
       case call_compute_get svc ctx server_id w1 of
         (Inl (InstanceNotFound m), w2) \<Rightarrow>
           (Inl (HTTPNotFound (Explanation (Text (format_message (InstanceNotFound m))))), w2)
       | (Inl e, w2) \<Rightarrow> (Inl (Raised e), w2)
       | (Inr inst, w2) \<Rightarrow>
      (case call_volume_get svc ctx vid w2 of
         (Inl (VolumeNotFound m), w3) \<Rightarrow>
           (Inl (HTTPNotFound (Explanation (Text (format_message (VolumeNotFound m))))), w3)
       | (Inl e, w3) \<Rightarrow> (Inl (Raised e), w3)
       | (Inr vol, w3) \<Rightarrow>
      (case call_get_instance_bdms svc ctx inst w3 of
         (Inl e, w4) \<Rightarrow> (Inl (Raised e), w4)
       | (Inr bdms, w4) \<Rightarrow>
          (if bdms = [] then
             (let msg = not_attached_msg server_id vid;
                  w5 = log_record (Debug msg) w4
              in (Inl (HTTPNotFound (Explanation msg)), w5))
           else detach_scan svc ctx inst vol server_id vid bdms w4)))))))"

text \<open>\<open>detach\<close> under \<open>@wsgi.response(202)\<close>.\<close>

definition detach ::
  "services \<Rightarrow> request \<Rightarrow> string \<Rightarrow> json \<Rightarrow> world \<Rightarrow> (error + response) \<times> world" where
  "detach svc req ident body w = wsgi_response 202 (detach_handler svc req ident body w)"

subsection \<open>What the services answer during one request\<close>

text \<open>The calls of \<open>compute_api.detach_volume\<close> in a trace are those that satisfy this.\<close>

fun is_detach_call :: "call \<Rightarrow> bool" where
  "is_detach_call (Compute_detach_volume c i v) = True"
| "is_detach_call _ = False"

text \<open>The calls \<open>detach\<close> makes before it looks at the mappings.\<close>

definition detach_lookups :: "request_context \<Rightarrow> string \<Rightarrow> json \<Rightarrow> db_instance \<Rightarrow> call list" where
  "detach_lookups ctx server_id vid inst =
     [Compute_get ctx server_id, Volume_get ctx vid, Compute_get_instance_bdms ctx inst]"

text \<open>The answer of the compute service to the two calls of \<open>attach\<close>: the lookup of the
  instance, then \<open>attach_volume\<close> on the instance found.\<close>

definition attach_backend ::
  "services \<Rightarrow> call list \<Rightarrow> request_context \<Rightarrow> string \<Rightarrow> json \<Rightarrow> json \<Rightarrow> exn + unit" where
  "attach_backend svc h ctx server_id vid device =
     (case compute_get svc h ctx server_id of
        Inl e \<Rightarrow> Inl e
      | Inr inst \<Rightarrow> compute_attach_volume svc (h @ [Compute_get ctx server_id]) ctx inst vid device)"

text \<open>The calls \<open>detail\<close> makes for servers with the given ids, in their order.\<close>

definition bdms_calls :: "request \<Rightarrow> json list \<Rightarrow> call list" where
  "bdms_calls req sids =
     map (\<lambda>sid. Compute_get_instance_bdms (nova_context req) (get_db_instance req sid)) sids"

text \<open>The audit record \<open>detach\<close> writes.\<close>

definition detach_audit :: "request_context \<Rightarrow> string \<Rightarrow> json \<Rightarrow> log_record" where
  "detach_audit ctx server_id vid =
     Audit (Percent ''Detach volume %(volume_id)s from instance %(server_id)s''
              (Named [(''volume_id'', Val vid), (''server_id'', Val (JStr server_id)),
                      (''context'', Ctx ctx)]))
           None"

subsection \<open>The enrichment as the specification words it\<close>

text \<open>The specification of the read hooks: the non-empty volume ids of the mappings, in
  the order of the mappings, each as the single-field object \<open>{id: volume_id}\<close>, under the
  namespaced key of the server representation. These two definitions follow that wording,
  not the code; the theorems below compare \<open>show\<close> and \<open>detail\<close> of the controller with
  them.\<close>

fun spec_volume_ids :: "bdm list \<Rightarrow> string list" where
  "spec_volume_ids [] = []"
| "spec_volume_ids (b # bs) =
     (case bdm_volume_id b of
        None \<Rightarrow> spec_volume_ids bs
      | Some v \<Rightarrow> if v = [] then spec_volume_ids bs else v # spec_volume_ids bs)"

definition spec_enriched :: "(string \<times> json) list \<Rightarrow> string list \<Rightarrow> json" where
  "spec_enriched server vids =
     JObj (AList.update ''os-extended-volumes:volumes_attached''
             (JList (map (\<lambda>v. JObj [(''id'', JStr v)]) vids)) server)"

subsection \<open>Test doubles\<close>

text \<open>Stand-ins for the collaborators, to run the controller on concrete requests: a
  check for the canonical form of a UUID, a check that the body holds a dict under the
  entity's name, a conflict helper that raises \<open>HTTPConflict\<close>, and services whose answers
  are scripted over the calls made so far.\<close>

definition hex_digit :: "char \<Rightarrow> bool" where
  "hex_digit c = (c \<in> set ''0123456789abcdef'')"

fun uuid_shaped :: "json \<Rightarrow> bool" where
  "uuid_shaped (JStr s) =
     (map (\<lambda>c. if hex_digit c then CHR ''0'' else c) s = ''00000000-0000-0000-0000-000000000000'')"
| "uuid_shaped _ = False"

fun holds_dict :: "json \<Rightarrow> string \<Rightarrow> bool" where
  "holds_dict (JObj d) entity_name =
     (case map_of d entity_name of Some (JObj e) \<Rightarrow> True | _ \<Rightarrow> False)"
| "holds_dict _ entity_name = False"

definition stub_conflict_text :: "exn \<Rightarrow> string \<Rightarrow> message" where
  "stub_conflict_text state_error action =
     Percent ''Cannot '%(action)s' while instance is in state %(state)s''
       (Named [(''action'', Val (JStr action)), (''state'', Val (JStr (format_message state_error)))])"

definition V1 :: string where
  "V1 = ''a3f1c2d4-0b5e-4c6f-8a7b-9c0d1e2f3a4b''"

definition V2 :: string where
  "V2 = ''11111111-2222-3333-4444-555555555555''"

definition stub_services ::
  "bool \<Rightarrow> (call list \<Rightarrow> bdm list) \<Rightarrow> (call list \<Rightarrow> exn + unit) \<Rightarrow> (call list \<Rightarrow> exn + unit)
     \<Rightarrow> services" where
  "stub_services allowed bdms_of attach_answer detach_answer =
     \<lparr>soft_extension_authorizer = (\<lambda>api_name extension_name ctx. Inr allowed),
      is_uuid_like = uuid_shaped,
      is_valid_body = holds_dict,
      raise_http_conflict_for_instance_invalid_state = (\<lambda>state_error action.
        Inl (HTTPConflict (Explanation (stub_conflict_text state_error action)))),
      compute_get = (\<lambda>h ctx server_id.
        if server_id = ''server-1'' then Inr (Instance server_id)
        else Inl (InstanceNotFound ''Instance could not be found.'')),
      compute_get_instance_bdms = (\<lambda>h ctx inst. Inr (bdms_of h)),
      compute_attach_volume = (\<lambda>h ctx inst vid device. attach_answer h),
      compute_detach_volume = (\<lambda>h ctx inst vol. detach_answer h),
      volume_get = (\<lambda>h ctx vid. Inr (Volume ''volume-1''))\<rparr>"

text \<open>Two mappings of the volume \<open>V1\<close>; the first \<open>detach_volume\<close> of a request is answered
  with \<open>VolumeUnattached\<close>, a later one returns.\<close>

definition unattached_at_first :: services where
  "unattached_at_first =
     stub_services True (\<lambda>h. [\<lparr>bdm_volume_id = Some V1\<rparr>, \<lparr>bdm_volume_id = Some V1\<rparr>])
       (\<lambda>h. Inr ())
       (\<lambda>h. if filter is_detach_call h = [] then Inl (VolumeUnattached ''unattached'') else Inr ())"

text \<open>Three mappings of the volume \<open>V1\<close> among mappings of \<open>V2\<close>, with the same
  answers to \<open>detach_volume\<close>.\<close>

definition unattached_between :: services where
  "unattached_between =
     stub_services True
       (\<lambda>h. [\<lparr>bdm_volume_id = Some V2\<rparr>, \<lparr>bdm_volume_id = Some V1\<rparr>, \<lparr>bdm_volume_id = Some V2\<rparr>,
             \<lparr>bdm_volume_id = Some V1\<rparr>, \<lparr>bdm_volume_id = Some V1\<rparr>])
       (\<lambda>h. Inr ())
       (\<lambda>h. if filter is_detach_call h = [] then Inl (VolumeUnattached ''unattached'') else Inr ())"

text \<open>One mapping, of the volume \<open>V1\<close>, until \<open>detach_volume\<close> has been called; none
  afterwards.\<close>

definition attached_until_detached :: services where
  "attached_until_detached =
     stub_services True (\<lambda>h. if filter is_detach_call h = [] then [\<lparr>bdm_volume_id = Some V1\<rparr>] else [])
       (\<lambda>h. Inr ()) (\<lambda>h. Inr ())"

text \<open>The mappings of \<open>V1\<close> and \<open>V2\<close> for the first call of a request, the mapping of
  \<open>V2\<close> alone for a later one.\<close>

definition two_then_one :: services where
  "two_then_one =
     stub_services True
       (\<lambda>h. if h = [] then [\<lparr>bdm_volume_id = Some V1\<rparr>, \<lparr>bdm_volume_id = Some V2\<rparr>]
            else [\<lparr>bdm_volume_id = Some V2\<rparr>])
       (\<lambda>h. Inr ()) (\<lambda>h. Inr ())"

text \<open>Mappings without a volume for the first call of a request, no mappings for a later
  one.\<close>

definition nothing_attached :: services where
  "nothing_attached =
     stub_services True
       (\<lambda>h. if h = [] then [\<lparr>bdm_volume_id = None\<rparr>, \<lparr>bdm_volume_id = Some []\<rparr>] else [])
       (\<lambda>h. Inr ()) (\<lambda>h. Inr ())"

text \<open>The response object of the core API for one server, and for a list of two.\<close>

definition one_server :: resp_obj where
  "one_server = \<lparr>obj = JObj [(''server'', JObj [(''id'', JStr ''server-1'')])], attached = []\<rparr>"

definition two_servers :: resp_obj where
  "two_servers =
     \<lparr>obj = JObj [(''servers'', JList [JObj [(''id'', JStr ''server-1'')],
                                        JObj [(''id'', JStr ''server-2''), (''name'', JStr ''db'')]])],
      attached = []\<rparr>"

definition stub_request :: request where
  "stub_request =
     \<lparr>nova_context = RequestContext ''demo'',
      get_db_instance = (\<lambda>sid. case sid of JStr s \<Rightarrow> Instance s | _ \<Rightarrow> Instance [])\<rparr>"

definition no_calls :: world where
  "no_calls = \<lparr>calls = [], logged = []\<rparr>"

definition volume_request :: "string \<Rightarrow> json \<Rightarrow> json" where
  "volume_request action vid = JObj [(action, JObj [(''volume_id'', vid)])]"

section \<open>Properties\<close>

lemmas call_defs = call_compute_get_def call_attach_volume_def call_detach_volume_def
  call_volume_get_def call_get_instance_bdms_def record_call_def log_record_def

subsection \<open>Reading: \<open>show\<close> and \<open>detail\<close>\<close>

text \<open>
  C7. When \<open>authorize\<close> answers that the caller is not allowed, \<open>show\<close> and \<open>detail\<close>
  return without an error, leave the response object as it was (no key added, no
  template attached) and call no service.
\<close>

theorem unauthorized_enrichment_is_noop:
  assumes "authorize svc (nova_context req) = Inr False"
  shows "show_extends svc req resp ident w = (Inr (), resp, w)
       \<and> detail svc req resp w = (Inr (), resp, w)"
  using assms by (simp add: show_extends_def detail_def)

theorem unauthorized_enrichment_is_noop_witness:
  "authorize (stub_services False (\<lambda>h. [\<lparr>bdm_volume_id = Some V1\<rparr>]) (\<lambda>h. Inr ()) (\<lambda>h. Inr ()))
     (nova_context stub_request) = Inr False
   \<and> show_extends (stub_services False (\<lambda>h. [\<lparr>bdm_volume_id = Some V1\<rparr>]) (\<lambda>h. Inr ()) (\<lambda>h. Inr ()))
        stub_request
        \<lparr>obj = JObj [(''server'', JObj [(''id'', JStr ''server-1'')])], attached = []\<rparr>
        ''server-1'' no_calls
      = (Inr (), \<lparr>obj = JObj [(''server'', JObj [(''id'', JStr ''server-1'')])], attached = []\<rparr>,
         no_calls)
   \<and> detail (stub_services False (\<lambda>h. [\<lparr>bdm_volume_id = Some V1\<rparr>]) (\<lambda>h. Inr ()) (\<lambda>h. Inr ()))
        stub_request
        \<lparr>obj = JObj [(''server'', JObj [(''id'', JStr ''server-1'')])], attached = []\<rparr>
        no_calls
      = (Inr (), \<lparr>obj = JObj [(''server'', JObj [(''id'', JStr ''server-1'')])], attached = []\<rparr>,
         no_calls)"
  using unauthorized_enrichment_is_noop
    [of "stub_services False (\<lambda>h. [\<lparr>bdm_volume_id = Some V1\<rparr>]) (\<lambda>h. Inr ()) (\<lambda>h. Inr ())"
        stub_request
        "\<lparr>obj = JObj [(''server'', JObj [(''id'', JStr ''server-1'')])], attached = []\<rparr>"
        "''server-1''" no_calls]
  by (simp add: authorize_def stub_services_def)

text \<open>What \<open>_extend_server\<close> stores, in the words of the specification.\<close>

lemma volume_ids_nonempty:
  "map (\<lambda>v. JObj [(''id'', json_of v)])
       (map bdm_volume_id (filter (\<lambda>b. truthy (bdm_volume_id b)) bdms)) =
   map (\<lambda>v. JObj [(''id'', JStr v)]) (spec_volume_ids bdms)"
proof (induction bdms)
  case Nil
  show ?case by simp
next
  case (Cons b bdms)
  then show ?case by (cases "bdm_volume_id b") simp_all
qed

lemma spec_volume_ids_all:
  assumes "map bdm_volume_id bdms = map Some vids" and "[] \<notin> set vids"
  shows "spec_volume_ids bdms = vids"
  using assms
proof (induction bdms arbitrary: vids)
  case Nil
  then show ?case by simp
next
  case (Cons b bdms)
  then obtain v vs where "vids = v # vs" by (cases vids) auto
  with Cons show ?case by auto
qed

lemma spec_volume_ids_none:
  assumes "\<forall>b \<in> set bdms. bdm_volume_id b = None \<or> bdm_volume_id b = Some []"
  shows "spec_volume_ids bdms = []"
  using assms by (induction bdms) auto

lemma extend_server_dict:
  assumes "compute_get_instance_bdms svc (calls w) ctx inst = Inr bdms"
  shows "extend_server svc ctx (JObj s) inst w =
     (Inr (spec_enriched s (spec_volume_ids bdms)),
      w\<lparr>calls := calls w @ [Compute_get_instance_bdms ctx inst]\<rparr>)"
  using assms
  by (simp add: extend_server_def call_defs volume_ids_nonempty spec_enriched_def
        volumes_attached_key_def ALIAS_def del: map_map)

lemma show_extends_authorized:
  assumes auth: "authorize svc (nova_context req) = Inr True"
    and body: "obj resp = JObj r" "map_of r ''server'' = Some (JObj s)" "map_of s ''id'' = Some sid"
    and bdms: "compute_get_instance_bdms svc (calls w) (nova_context req) (get_db_instance req sid)
                 = Inr bdms"
  shows "show_extends svc req resp ident w =
     (Inr (),
      resp\<lparr>attached := attached resp @ [(''xml'', ExtendedVolumesServerTemplate)],
           obj := JObj (AList.update ''server'' (spec_enriched s (spec_volume_ids bdms)) r)\<rparr>,
      w\<lparr>calls := calls w @ bdms_calls req [sid]\<rparr>)"
  using auth body
  by (simp add: show_extends_def Let_def resp_attach_def extend_server_dict [OF bdms] bdms_calls_def)

lemma detail_loop_dicts:
  assumes "length sids = length ss" and "length bdmss = length ss"
    and "\<forall>i < length ss. map_of (ss ! i) ''id'' = Some (sids ! i)"
    and "\<forall>i < length ss. compute_get_instance_bdms svc (calls w @ bdms_calls req (take i sids))
            (nova_context req) (get_db_instance req (sids ! i)) = Inr (bdmss ! i)"
  shows "detail_loop svc req (nova_context req) (map JObj ss) w =
     ((None, map2 (\<lambda>s bdms. spec_enriched s (spec_volume_ids bdms)) ss bdmss),
      w\<lparr>calls := calls w @ bdms_calls req sids\<rparr>)"
  using assms
proof (induction ss arbitrary: sids bdmss w)
  case Nil
  then show ?case by (simp add: bdms_calls_def)
next
  case (Cons s ss)
  from Cons.prems(1) obtain sid sids' where sids: "sids = sid # sids'" "length sids' = length ss"
    by (cases sids) auto
  from Cons.prems(2) obtain bd bdmss' where bdmss: "bdmss = bd # bdmss'" "length bdmss' = length ss"
    by (cases bdmss) auto
  let ?c = "Compute_get_instance_bdms (nova_context req) (get_db_instance req sid)"
  let ?w' = "w\<lparr>calls := calls w @ [?c]\<rparr>"
  from Cons.prems(3) sids have id0: "map_of s ''id'' = Some sid" by auto
  from Cons.prems(4) sids bdmss have b0:
    "compute_get_instance_bdms svc (calls w) (nova_context req) (get_db_instance req sid) = Inr bd"
    by (auto simp: bdms_calls_def)
  have ids: "\<forall>i < length ss. map_of (ss ! i) ''id'' = Some (sids' ! i)"
    using Cons.prems(3) sids by auto
  have bs: "\<forall>i < length ss. compute_get_instance_bdms svc (calls ?w' @ bdms_calls req (take i sids'))
            (nova_context req) (get_db_instance req (sids' ! i)) = Inr (bdmss' ! i)"
  proof (intro allI impI)
    fix i assume "i < length ss"
    then have "Suc i < length (s # ss)" by simp
    with Cons.prems(4) have "compute_get_instance_bdms svc (calls w @ bdms_calls req (take (Suc i) sids))
            (nova_context req) (get_db_instance req (sids ! Suc i)) = Inr (bdmss ! Suc i)"
      by blast
    then show "compute_get_instance_bdms svc (calls ?w' @ bdms_calls req (take i sids'))
            (nova_context req) (get_db_instance req (sids' ! i)) = Inr (bdmss' ! i)"
      using sids bdmss by (simp add: bdms_calls_def)
  qed
  from Cons.IH [OF sids(2) bdmss(2) ids bs] id0 sids bdmss show ?case
    by (simp add: extend_server_dict [OF b0] bdms_calls_def spec_enriched_def)
qed

lemma detail_authorized:
  assumes auth: "authorize svc (nova_context req) = Inr True"
    and body: "obj resp = JObj r" "map_of r ''servers'' = Some (JList (map JObj ss))"
    and lens: "length sids = length ss" "length bdmss = length ss"
    and ids: "\<forall>i < length ss. map_of (ss ! i) ''id'' = Some (sids ! i)"
    and bdms: "\<forall>i < length ss. compute_get_instance_bdms svc (calls w @ bdms_calls req (take i sids))
            (nova_context req) (get_db_instance req (sids ! i)) = Inr (bdmss ! i)"
  shows "detail svc req resp w =
     (Inr (),
      resp\<lparr>attached := attached resp @ [(''xml'', ExtendedVolumesServersTemplate)],
           obj := JObj (AList.update ''servers''
                    (JList (map2 (\<lambda>s bdms. spec_enriched s (spec_volume_ids bdms)) ss bdmss)) r)\<rparr>,
      w\<lparr>calls := calls w @ bdms_calls req sids\<rparr>)"
  using auth body
  by (simp add: detail_def Let_def resp_attach_def detail_loop_dicts [OF lens ids bdms])

lemma map2_spec_volume_ids_all:
  assumes "length bdmss = length ss" and "length vidss = length ss"
    and "\<forall>i < length ss. map bdm_volume_id (bdmss ! i) = map Some (vidss ! i) \<and> [] \<notin> set (vidss ! i)"
  shows "map2 (\<lambda>s bdms. spec_enriched s (spec_volume_ids bdms)) ss bdmss =
         map2 spec_enriched ss vidss"
proof (rule nth_equalityI)
  show "length (map2 (\<lambda>s bdms. spec_enriched s (spec_volume_ids bdms)) ss bdmss) =
        length (map2 spec_enriched ss vidss)"
    using assms by simp
next
  fix i assume "i < length (map2 (\<lambda>s bdms. spec_enriched s (spec_volume_ids bdms)) ss bdmss)"
  with assms have i: "i < length ss" by simp
  with assms have "spec_volume_ids (bdmss ! i) = vidss ! i"
    by (simp add: spec_volume_ids_all)
  with i assms show "map2 (\<lambda>s bdms. spec_enriched s (spec_volume_ids bdms)) ss bdmss ! i =
        map2 spec_enriched ss vidss ! i"
    by simp
qed

text \<open>
  C6. For an authorized caller, a server whose instance has the mappings \<open>bdms\<close>, all with
  a non-empty volume id, gets under \<open>os-extended-volumes:volumes_attached\<close> the list of
  \<open>{id: volume_id}\<close>, one entry for each mapping and in the order of the mappings. \<open>show\<close>
  does this for the server of the response, \<open>detail\<close> for each server of the list, each
  with the mappings the compute service answers for it.
\<close>

theorem enrichment_lists_every_volume:
  assumes auth: "authorize svc (nova_context req) = Inr True"
    and server: "obj resp = JObj r" "map_of r ''server'' = Some (JObj s)"
                "map_of s ''id'' = Some sid"
    and bdms: "compute_get_instance_bdms svc (calls w) (nova_context req) (get_db_instance req sid)
                 = Inr bdms"
    and vids: "map bdm_volume_id bdms = map Some vids" "[] \<notin> set vids"
    and servers: "obj resps = JObj rs" "map_of rs ''servers'' = Some (JList (map JObj ss))"
    and lens: "length sids = length ss" "length bdmss = length ss" "length vidss = length ss"
    and ids: "\<forall>i < length ss. map_of (ss ! i) ''id'' = Some (sids ! i)"
    and bdmss: "\<forall>i < length ss.
                  compute_get_instance_bdms svc (calls w @ bdms_calls req (take i sids))
                    (nova_context req) (get_db_instance req (sids ! i)) = Inr (bdmss ! i)"
    and vidss: "\<forall>i < length ss. map bdm_volume_id (bdmss ! i) = map Some (vidss ! i)
                                \<and> [] \<notin> set (vidss ! i)"
  shows "show_extends svc req resp ident w =
           (Inr (),
            resp\<lparr>attached := attached resp @ [(''xml'', ExtendedVolumesServerTemplate)],
                 obj := JObj (AList.update ''server'' (spec_enriched s vids) r)\<rparr>,
            w\<lparr>calls := calls w @ bdms_calls req [sid]\<rparr>)
       \<and> length vids = length bdms
       \<and> detail svc req resps w =
           (Inr (),
            resps\<lparr>attached := attached resps @ [(''xml'', ExtendedVolumesServersTemplate)],
                  obj := JObj (AList.update ''servers''
                                 (JList (map2 spec_enriched ss vidss)) rs)\<rparr>,
            w\<lparr>calls := calls w @ bdms_calls req sids\<rparr>)"
proof -
  have "length vids = length bdms"
    using vids(1) by (metis length_map)
  moreover have "spec_volume_ids bdms = vids"
    using vids by (rule spec_volume_ids_all)
  moreover note show_extends_authorized [OF auth server bdms, of ident]
    detail_authorized [OF auth servers lens(1,2) ids bdmss]
    map2_spec_volume_ids_all [OF lens(2,3) vidss]
  ultimately show ?thesis by simp
qed

theorem enrichment_lists_every_volume_witness:
  "show_extends two_then_one stub_request one_server ''server-1'' no_calls =
     (Inr (),
      \<lparr>obj = JObj [(''server'',
                JObj [(''id'', JStr ''server-1''),
                      (''os-extended-volumes:volumes_attached'',
                       JList [JObj [(''id'', JStr V1)], JObj [(''id'', JStr V2)]])])],
       attached = [(''xml'', ExtendedVolumesServerTemplate)]\<rparr>,
      \<lparr>calls = [Compute_get_instance_bdms (RequestContext ''demo'') (Instance ''server-1'')],
       logged = []\<rparr>)
   \<and> detail two_then_one stub_request two_servers no_calls =
     (Inr (),
      \<lparr>obj = JObj [(''servers'',
                JList [JObj [(''id'', JStr ''server-1''),
                             (''os-extended-volumes:volumes_attached'',
                              JList [JObj [(''id'', JStr V1)], JObj [(''id'', JStr V2)]])],
                       JObj [(''id'', JStr ''server-2''), (''name'', JStr ''db''),
                             (''os-extended-volumes:volumes_attached'',
                              JList [JObj [(''id'', JStr V2)]])]])],
       attached = [(''xml'', ExtendedVolumesServersTemplate)]\<rparr>,
      \<lparr>calls = [Compute_get_instance_bdms (RequestContext ''demo'') (Instance ''server-1''),
                Compute_get_instance_bdms (RequestContext ''demo'') (Instance ''server-2'')],
       logged = []\<rparr>)"
  using enrichment_lists_every_volume
    [of two_then_one stub_request one_server "[(''server'', JObj [(''id'', JStr ''server-1'')])]"
        "[(''id'', JStr ''server-1'')]" "JStr ''server-1''" no_calls
        "[\<lparr>bdm_volume_id = Some V1\<rparr>, \<lparr>bdm_volume_id = Some V2\<rparr>]" "[V1, V2]"
        two_servers
        "[(''servers'', JList [JObj [(''id'', JStr ''server-1'')],
                               JObj [(''id'', JStr ''server-2''), (''name'', JStr ''db'')]])]"
        "[[(''id'', JStr ''server-1'')], [(''id'', JStr ''server-2''), (''name'', JStr ''db'')]]"
        "[JStr ''server-1'', JStr ''server-2'']"
        "[[\<lparr>bdm_volume_id = Some V1\<rparr>, \<lparr>bdm_volume_id = Some V2\<rparr>], [\<lparr>bdm_volume_id = Some V2\<rparr>]]"
        "[[V1, V2], [V2]]" "''server-1''"]
  by (simp add: authorize_def stub_services_def two_then_one_def stub_request_def one_server_def
        two_servers_def no_calls_def bdms_calls_def spec_enriched_def V1_def V2_def
        less_Suc_eq nth_Cons')

text \<open>
  C10. For an authorized caller the key \<open>os-extended-volumes:volumes_attached\<close> is set on
  the server whatever the mappings are, with the entries of the non-empty volume ids; when
  the instance has no mappings, or none with a volume id that is neither \<open>None\<close> nor
  empty, the value stored is the empty list.
\<close>

theorem volumes_attached_key_is_always_set:
  assumes auth: "authorize svc (nova_context req) = Inr True"
    and server: "obj resp = JObj r" "map_of r ''server'' = Some (JObj s)"
                "map_of s ''id'' = Some sid"
    and bdms: "compute_get_instance_bdms svc (calls w) (nova_context req) (get_db_instance req sid)
                 = Inr bdms"
    and servers: "obj resps = JObj rs" "map_of rs ''servers'' = Some (JList (map JObj ss))"
    and lens: "length sids = length ss" "length bdmss = length ss"
    and ids: "\<forall>i < length ss. map_of (ss ! i) ''id'' = Some (sids ! i)"
    and bdmss: "\<forall>i < length ss.
                  compute_get_instance_bdms svc (calls w @ bdms_calls req (take i sids))
                    (nova_context req) (get_db_instance req (sids ! i)) = Inr (bdmss ! i)"
  shows "show_extends svc req resp ident w =
           (Inr (),
            resp\<lparr>attached := attached resp @ [(''xml'', ExtendedVolumesServerTemplate)],
                 obj := JObj (AList.update ''server''
                   (JObj (AList.update ''os-extended-volumes:volumes_attached''
                            (JList (map (\<lambda>v. JObj [(''id'', JStr v)]) (spec_volume_ids bdms))) s)) r)\<rparr>,
            w\<lparr>calls := calls w @ bdms_calls req [sid]\<rparr>)
       \<and> ((\<forall>b \<in> set bdms. bdm_volume_id b = None \<or> bdm_volume_id b = Some []) \<longrightarrow>
            spec_volume_ids bdms = [])
       \<and> detail svc req resps w =
           (Inr (),
            resps\<lparr>attached := attached resps @ [(''xml'', ExtendedVolumesServersTemplate)],
                  obj := JObj (AList.update ''servers''
                    (JList (map2 (\<lambda>s bdms.
                       JObj (AList.update ''os-extended-volumes:volumes_attached''
                               (JList (map (\<lambda>v. JObj [(''id'', JStr v)]) (spec_volume_ids bdms))) s))
                       ss bdmss)) rs)\<rparr>,
            w\<lparr>calls := calls w @ bdms_calls req sids\<rparr>)
       \<and> (\<forall>i < length ss.
            (\<forall>b \<in> set (bdmss ! i). bdm_volume_id b = None \<or> bdm_volume_id b = Some []) \<longrightarrow>
            spec_volume_ids (bdmss ! i) = [])"
  using show_extends_authorized [OF auth server bdms, of ident]
    detail_authorized [OF auth servers lens ids bdmss]
  by (simp add: spec_enriched_def spec_volume_ids_none)

theorem volumes_attached_key_is_always_set_witness:
  "show_extends nothing_attached stub_request one_server ''server-1'' no_calls =
     (Inr (),
      \<lparr>obj = JObj [(''server'',
                JObj [(''id'', JStr ''server-1''),
                      (''os-extended-volumes:volumes_attached'', JList [])])],
       attached = [(''xml'', ExtendedVolumesServerTemplate)]\<rparr>,
      \<lparr>calls = [Compute_get_instance_bdms (RequestContext ''demo'') (Instance ''server-1'')],
       logged = []\<rparr>)
   \<and> detail nothing_attached stub_request two_servers no_calls =
     (Inr (),
      \<lparr>obj = JObj [(''servers'',
                JList [JObj [(''id'', JStr ''server-1''),
                             (''os-extended-volumes:volumes_attached'', JList [])],
                       JObj [(''id'', JStr ''server-2''), (''name'', JStr ''db''),
                             (''os-extended-volumes:volumes_attached'', JList [])]])],
       attached = [(''xml'', ExtendedVolumesServersTemplate)]\<rparr>,
      \<lparr>calls = [Compute_get_instance_bdms (RequestContext ''demo'') (Instance ''server-1''),
                Compute_get_instance_bdms (RequestContext ''demo'') (Instance ''server-2'')],
       logged = []\<rparr>)"
  using volumes_attached_key_is_always_set
    [of nothing_attached stub_request one_server "[(''server'', JObj [(''id'', JStr ''server-1'')])]"
        "[(''id'', JStr ''server-1'')]" "JStr ''server-1''" no_calls
        "[\<lparr>bdm_volume_id = None\<rparr>, \<lparr>bdm_volume_id = Some []\<rparr>]"
        two_servers
        "[(''servers'', JList [JObj [(''id'', JStr ''server-1'')],
                               JObj [(''id'', JStr ''server-2''), (''name'', JStr ''db'')]])]"
        "[[(''id'', JStr ''server-1'')], [(''id'', JStr ''server-2''), (''name'', JStr ''db'')]]"
        "[JStr ''server-1'', JStr ''server-2'']"
        "[[\<lparr>bdm_volume_id = None\<rparr>, \<lparr>bdm_volume_id = Some []\<rparr>], []]" "''server-1''"]
  by (simp add: authorize_def stub_services_def nothing_attached_def stub_request_def one_server_def
        two_servers_def no_calls_def bdms_calls_def less_Suc_eq nth_Cons')

subsection \<open>Attaching\<close>

text \<open>
  C5. An \<open>attach\<close> request whose \<open>volume_id\<close> is not UUID-like fails with
  \<open>HTTPBadRequest\<close>; the explanation holds the offending value; the trace and the log are
  as they were before, so no service was called.
\<close>

theorem attach_rejects_volume_id_not_uuid_like:
  assumes auth: "authorize_attach svc (nova_context req) = Inr b"
    and valid: "is_valid_body svc (JObj d) ''attach''"
    and body: "map_of d ''attach'' = Some (JObj a)" "map_of a ''volume_id'' = Some vid"
    and bad: "\<not> is_uuid_like svc vid"
  shows "attach svc req ident (JObj d) w =
     (Inl (HTTPBadRequest (Explanation
        (Percent ''Bad volumeId format: volumeId is not in proper format (%s)'' (Single vid)))), w)"
  using assms
  by (simp add: attach_def attach_handler_def validate_volume_id_def Let_def split: option.splits)

theorem attach_rejects_volume_id_not_uuid_like_witness:
  "\<not> is_uuid_like (stub_services True (\<lambda>h. []) (\<lambda>h. Inr ()) (\<lambda>h. Inr ())) (JStr ''not-a-uuid'')
   \<and> attach (stub_services True (\<lambda>h. []) (\<lambda>h. Inr ()) (\<lambda>h. Inr ())) stub_request ''server-1''
        (JObj [(''attach'', JObj [(''volume_id'', JStr ''not-a-uuid'')])]) no_calls
      = (Inl (HTTPBadRequest (Explanation
           (Percent ''Bad volumeId format: volumeId is not in proper format (%s)''
              (Single (JStr ''not-a-uuid''))))),
         no_calls)"
  using attach_rejects_volume_id_not_uuid_like
    [of "stub_services True (\<lambda>h. []) (\<lambda>h. Inr ()) (\<lambda>h. Inr ())" stub_request True
        "[(''attach'', JObj [(''volume_id'', JStr ''not-a-uuid'')])]"
        "[(''volume_id'', JStr ''not-a-uuid'')]" "JStr ''not-a-uuid''" "''server-1''" no_calls]
  by (simp add: authorize_attach_def stub_services_def hex_digit_def)

text \<open>
  C9. Once \<open>attach\<close> has a valid body and a UUID-like \<open>volume_id\<close>, its outcome is
  decided by what the compute service answers: \<open>InstanceNotFound\<close> and \<open>VolumeNotFound\<close>
  become \<open>HTTPNotFound\<close>, \<open>InstanceInvalidState\<close> becomes the \<open>HTTPConflict\<close> that the helper
  of \<open>nova.api.openstack.common\<close> raises for the state error and \<open>attach_volume\<close>,
  \<open>InvalidVolume\<close> and \<open>InvalidDevicePath\<close> become \<open>HTTPBadRequest\<close>, and a call that
  returns becomes the response 202 without a body. An exception that no clause names is
  not translated.
\<close>

theorem attach_maps_backend_outcomes:
  assumes auth: "authorize_attach svc (nova_context req) = Inr b"
    and valid: "is_valid_body svc (JObj d) ''attach''"
    and body: "map_of d ''attach'' = Some (JObj a)" "map_of a ''volume_id'' = Some vid"
    and device: "dict_get (JObj a) ''device'' = Inr device"
    and uuid: "is_uuid_like svc vid"
    and helper: "\<forall>state_error action.
        raise_http_conflict_for_instance_invalid_state svc state_error action =
          Inl (HTTPConflict (Explanation (conflict_text state_error action)))"
  shows "fst (attach svc req ident (JObj d) w) =
     (case attach_backend svc (calls w) (nova_context req) ident vid device of
        Inr u \<Rightarrow> Inr (Response 202 None)
      | Inl (InstanceNotFound m) \<Rightarrow> Inl (HTTPNotFound (Explanation (Text m)))
      | Inl (VolumeNotFound m) \<Rightarrow> Inl (HTTPNotFound (Explanation (Text m)))
      | Inl (InstanceInvalidState m) \<Rightarrow>
          Inl (HTTPConflict (Explanation (conflict_text (InstanceInvalidState m) ''attach_volume'')))
      | Inl (InvalidVolume m) \<Rightarrow> Inl (HTTPBadRequest (Explanation (Text m)))
      | Inl (InvalidDevicePath m) \<Rightarrow> Inl (HTTPBadRequest (Explanation (Text m)))
      | Inl e \<Rightarrow> Inl (Raised e))"
  using assms
  by (simp add: attach_def attach_handler_def validate_volume_id_def Let_def attach_backend_def
        call_defs
      split: option.splits sum.splits exn.splits)

theorem attach_maps_backend_outcomes_witness:
  "fst (attach (stub_services True (\<lambda>h. []) (\<lambda>h. Inr ()) (\<lambda>h. Inr ())) stub_request ''server-1''
          (volume_request ''attach'' (JStr V1)) no_calls)
     = Inr (Response 202 None)
   \<and> fst (attach (stub_services True (\<lambda>h. []) (\<lambda>h. Inr ()) (\<lambda>h. Inr ())) stub_request ''server-2''
          (volume_request ''attach'' (JStr V1)) no_calls)
     = Inl (HTTPNotFound (Explanation (Text ''Instance could not be found.'')))
   \<and> fst (attach (stub_services True (\<lambda>h. []) (\<lambda>h. Inl (InstanceInvalidState ''building''))
                 (\<lambda>h. Inr ()))
          stub_request ''server-1'' (volume_request ''attach'' (JStr V1)) no_calls)
     = Inl (HTTPConflict (Explanation
         (stub_conflict_text (InstanceInvalidState ''building'') ''attach_volume'')))
   \<and> fst (attach (stub_services True (\<lambda>h. []) (\<lambda>h. Inl (InvalidDevicePath ''/dev/x''))
                 (\<lambda>h. Inr ()))
          stub_request ''server-1'' (volume_request ''attach'' (JStr V1)) no_calls)
     = Inl (HTTPBadRequest (Explanation (Text ''/dev/x'')))"
  using
    attach_maps_backend_outcomes
      [of "stub_services True (\<lambda>h. []) (\<lambda>h. Inr ()) (\<lambda>h. Inr ())" stub_request True
          "[(''attach'', JObj [(''volume_id'', JStr V1)])]" "[(''volume_id'', JStr V1)]"
          "JStr V1" JNull stub_conflict_text "''server-1''" no_calls]
    attach_maps_backend_outcomes
      [of "stub_services True (\<lambda>h. []) (\<lambda>h. Inr ()) (\<lambda>h. Inr ())" stub_request True
          "[(''attach'', JObj [(''volume_id'', JStr V1)])]" "[(''volume_id'', JStr V1)]"
          "JStr V1" JNull stub_conflict_text "''server-2''" no_calls]
    attach_maps_backend_outcomes
      [of "stub_services True (\<lambda>h. []) (\<lambda>h. Inl (InstanceInvalidState ''building'')) (\<lambda>h. Inr ())"
          stub_request True
          "[(''attach'', JObj [(''volume_id'', JStr V1)])]" "[(''volume_id'', JStr V1)]"
          "JStr V1" JNull stub_conflict_text "''server-1''" no_calls]
    attach_maps_backend_outcomes
      [of "stub_services True (\<lambda>h. []) (\<lambda>h. Inl (InvalidDevicePath ''/dev/x'')) (\<lambda>h. Inr ())"
          stub_request True
          "[(''attach'', JObj [(''volume_id'', JStr V1)])]" "[(''volume_id'', JStr V1)]"
          "JStr V1" JNull stub_conflict_text "''server-1''" no_calls]
  by (simp add: authorize_attach_def stub_services_def stub_request_def no_calls_def
        volume_request_def V1_def hex_digit_def attach_backend_def)

text \<open>
  C1, at a caller whom the policy denies. The authorizer of \<open>attach\<close> answers \<open>False\<close>, the
  handler drops the answer, both calls to the compute service are made, and the response
  is 202. The same holds for \<open>detach\<close> and its authorizer.
\<close>

theorem attach_of_denied_caller_is_accepted:
  "authorize_attach (stub_services False (\<lambda>h. []) (\<lambda>h. Inr ()) (\<lambda>h. Inr ()))
     (nova_context stub_request) = Inr False
   \<and> attach (stub_services False (\<lambda>h. []) (\<lambda>h. Inr ()) (\<lambda>h. Inr ())) stub_request ''server-1''
        (volume_request ''attach'' (JStr V1)) no_calls
      = (Inr (Response 202 None),
         \<lparr>calls = [Compute_get (RequestContext ''demo'') ''server-1'',
                   Compute_attach_volume (RequestContext ''demo'') (Instance ''server-1'')
                     (JStr V1) JNull],
          logged = [Audit (Percent
                      ''Attach volume %(volume_id)s to instance %(server_id)s at %(device)s''
                      (Named [(''volume_id'', Val (JStr V1)), (''device'', Val JNull),
                              (''server_id'', Val (JStr ''server-1''))]))
                    (Some (RequestContext ''demo''))]\<rparr>)
   \<and> authorize_detach (stub_services False (\<lambda>h. [\<lparr>bdm_volume_id = Some V1\<rparr>]) (\<lambda>h. Inr ())
                         (\<lambda>h. Inr ()))
       (nova_context stub_request) = Inr False
   \<and> detach (stub_services False (\<lambda>h. [\<lparr>bdm_volume_id = Some V1\<rparr>]) (\<lambda>h. Inr ()) (\<lambda>h. Inr ()))
        stub_request ''server-1'' (volume_request ''detach'' (JStr V1)) no_calls
      = (Inr (Response 202 None),
         \<lparr>calls = [Compute_get (RequestContext ''demo'') ''server-1'',
                   Volume_get (RequestContext ''demo'') (JStr V1),
                   Compute_get_instance_bdms (RequestContext ''demo'') (Instance ''server-1''),
                   Compute_detach_volume (RequestContext ''demo'') (Instance ''server-1'')
                     (Volume ''volume-1'')],
          logged = [detach_audit (RequestContext ''demo'') ''server-1'' (JStr V1)]\<rparr>)"
  by (simp add: attach_def attach_handler_def detach_def detach_handler_def authorize_attach_def
        authorize_detach_def stub_services_def stub_request_def no_calls_def volume_request_def
        V1_def hex_digit_def validate_volume_id_def Let_def call_defs differs_def detach_audit_def)

text \<open>The answer of the authorizer has no part in what \<open>attach\<close> and \<open>detach\<close> do: only
  an authorizer that raises stops them.\<close>

lemma attach_drops_authorizer_answer:
  assumes "authorize_attach svc (nova_context req) = Inr b"
  shows "attach svc req ident body w =
         attach (svc\<lparr>soft_extension_authorizer := (\<lambda>api_name extension_name ctx. Inr True)\<rparr>)
           req ident body w"
proof -
  have except: "attach_except (svc\<lparr>soft_extension_authorizer := f\<rparr>) e = attach_except svc e"
    for f e
    by (cases e) simp_all
  show ?thesis
    using assms
    by (simp add: attach_def attach_handler_def authorize_attach_def validate_volume_id_def
          call_defs Let_def except
        split: sum.splits prod.splits)
qed

lemma detach_drops_authorizer_answer:
  assumes "authorize_detach svc (nova_context req) = Inr b"
  shows "detach svc req ident body w =
         detach (svc\<lparr>soft_extension_authorizer := (\<lambda>api_name extension_name ctx. Inr True)\<rparr>)
           req ident body w"
proof -
  have scan: "detach_scan (svc\<lparr>soft_extension_authorizer := f\<rparr>) ctx inst vol sid vid bdms w' =
              detach_scan svc ctx inst vol sid vid bdms w'" for f ctx inst vol sid vid bdms w'
    by (induction bdms arbitrary: w') (simp_all add: call_defs split: sum.splits exn.splits)
  show ?thesis
    using assms
    by (simp add: detach_def detach_handler_def authorize_detach_def call_defs Let_def scan
        split: sum.splits prod.splits exn.splits)
qed

lemma raising_authorizer_stops_attach:
  assumes "authorize_attach svc (nova_context req) = Inl e"
  shows "attach svc req ident body w = (Inl e, w)"
  using assms by (simp add: attach_def attach_handler_def)

subsection \<open>Detaching\<close>

text \<open>The scan when every detach it tries is answered with \<open>VolumeUnattached\<close>: it ends
  in the \<open>else\<close> branch, after one call for each mapping of the requested volume.\<close>

lemma detach_scan_unattached:
  assumes "\<forall>k < length (filter (\<lambda>b. \<not> differs (bdm_volume_id b) vid) bdms).
             \<exists>m. compute_detach_volume svc (calls w @ replicate k (Compute_detach_volume ctx inst vol))
                    ctx inst vol = Inl (VolumeUnattached m)"
  shows "detach_scan svc ctx inst vol sid vid bdms w =
           (Inl (HTTPNotFound (Explanation (not_attached_msg sid vid))),
            w\<lparr>calls := calls w @ replicate (length (filter (\<lambda>b. \<not> differs (bdm_volume_id b) vid) bdms))
                                     (Compute_detach_volume ctx inst vol)\<rparr>)"
  using assms
proof (induction bdms arbitrary: w)
  case Nil
  then show ?case by simp
next
  case (Cons b bdms)
  show ?case
  proof (cases "differs (bdm_volume_id b) vid")
    case True
    with Cons show ?thesis by simp
  next
    case False
    let ?D = "Compute_detach_volume ctx inst vol"
    let ?w' = "w\<lparr>calls := calls w @ [?D]\<rparr>"
    from Cons.prems False obtain m where
      first: "compute_detach_volume svc (calls w) ctx inst vol = Inl (VolumeUnattached m)"
      by fastforce
    have rest: "\<forall>k < length (filter (\<lambda>b. \<not> differs (bdm_volume_id b) vid) bdms).
             \<exists>m. compute_detach_volume svc (calls ?w' @ replicate k ?D) ctx inst vol
                  = Inl (VolumeUnattached m)"
    proof (intro allI impI)
      fix k assume "k < length (filter (\<lambda>b. \<not> differs (bdm_volume_id b) vid) bdms)"
      with False have "Suc k < length (filter (\<lambda>b. \<not> differs (bdm_volume_id b) vid) (b # bdms))"
        by simp
      with Cons.prems have "\<exists>m. compute_detach_volume svc (calls w @ replicate (Suc k) ?D) ctx inst vol
                  = Inl (VolumeUnattached m)"
        by blast
      then show "\<exists>m. compute_detach_volume svc (calls ?w' @ replicate k ?D) ctx inst vol
                  = Inl (VolumeUnattached m)"
        by simp
    qed
    from Cons.IH [OF rest] first False show ?thesis
      by (simp add: call_defs replicate_app_Cons_same)
  qed
qed

text \<open>\<open>detach\<close> up to the scan, when the body is well formed and the three lookups
  return.\<close>

lemma detach_handler_lookups:
  assumes auth: "authorize_detach svc (nova_context req) = Inr b"
    and body: "map_of d ''detach'' = Some (JObj dd)" "map_of dd ''volume_id'' = Some vid"
    and inst: "compute_get svc (calls w) (nova_context req) sid = Inr inst"
    and vol: "volume_get svc (calls w @ [Compute_get (nova_context req) sid]) (nova_context req) vid
                = Inr vol"
    and bdms: "compute_get_instance_bdms svc
                 (calls w @ [Compute_get (nova_context req) sid, Volume_get (nova_context req) vid])
                 (nova_context req) inst = Inr bdms"
  shows "detach_handler svc req sid (JObj d) w =
     (if bdms = [] then
        (Inl (HTTPNotFound (Explanation (not_attached_msg sid vid))),
         w\<lparr>logged := logged w @ [detach_audit (nova_context req) sid vid,
                                  Debug (not_attached_msg sid vid)],
           calls := calls w @ detach_lookups (nova_context req) sid vid inst\<rparr>)
      else detach_scan svc (nova_context req) inst vol sid vid bdms
         (w\<lparr>logged := logged w @ [detach_audit (nova_context req) sid vid],
            calls := calls w @ detach_lookups (nova_context req) sid vid inst\<rparr>))"
  using assms
  by (simp add: detach_handler_def Let_def call_defs detach_lookups_def detach_audit_def)

text \<open>The scan over mappings \<open>pre\<close> in which every detach it tries is answered with
  \<open>VolumeUnattached\<close>: it goes on with the mappings after them, one call later for each
  mapping of the requested volume in \<open>pre\<close>.\<close>

lemma detach_scan_past_unattached:
  assumes "\<forall>k < length (filter (\<lambda>b. \<not> differs (bdm_volume_id b) vid) pre).
             \<exists>m. compute_detach_volume svc (calls w @ replicate k (Compute_detach_volume ctx inst vol))
                    ctx inst vol = Inl (VolumeUnattached m)"
  shows "detach_scan svc ctx inst vol sid vid (pre @ rest) w =
         detach_scan svc ctx inst vol sid vid rest
           (w\<lparr>calls := calls w @ replicate (length (filter (\<lambda>b. \<not> differs (bdm_volume_id b) vid) pre))
                                    (Compute_detach_volume ctx inst vol)\<rparr>)"
  using assms
proof (induction pre arbitrary: w)
  case Nil
  show ?case by simp
next
  case (Cons b pre)
  show ?case
  proof (cases "differs (bdm_volume_id b) vid")
    case True
    with Cons show ?thesis by simp
  next
    case False
    let ?D = "Compute_detach_volume ctx inst vol"
    let ?w' = "w\<lparr>calls := calls w @ [?D]\<rparr>"
    from Cons.prems False obtain m where
      first: "compute_detach_volume svc (calls w) ctx inst vol = Inl (VolumeUnattached m)"
      by fastforce
    have rest: "\<forall>k < length (filter (\<lambda>b. \<not> differs (bdm_volume_id b) vid) pre).
             \<exists>m. compute_detach_volume svc (calls ?w' @ replicate k ?D) ctx inst vol
                  = Inl (VolumeUnattached m)"
    proof (intro allI impI)
      fix k assume "k < length (filter (\<lambda>b. \<not> differs (bdm_volume_id b) vid) pre)"
      with False have "Suc k < length (filter (\<lambda>b. \<not> differs (bdm_volume_id b) vid) (b # pre))"
        by simp
      with Cons.prems have "\<exists>m. compute_detach_volume svc (calls w @ replicate (Suc k) ?D) ctx inst vol
                  = Inl (VolumeUnattached m)"
        by blast
      then show "\<exists>m. compute_detach_volume svc (calls ?w' @ replicate k ?D) ctx inst vol
                  = Inl (VolumeUnattached m)"
        by simp
    qed
    from Cons.IH [OF rest] first False show ?thesis
      by (simp add: call_defs replicate_app_Cons_same)
  qed
qed

text \<open>
  C2. \<open>VolumeUnattached\<close> for a mapping of the requested volume is not an error: the scan
  goes on with the later mappings. Let the mappings be \<open>pre\<close>, then a mapping \<open>hit\<close> of the
  requested volume, then \<open>post\<close>; let every \<open>detach_volume\<close> tried for a mapping of the
  requested volume in \<open>pre\<close> be answered with \<open>VolumeUnattached\<close>, and the one tried for
  \<open>hit\<close> return. Then \<open>detach\<close> gives the response 202 without a body, after one call of
  \<open>detach_volume\<close> for each mapping of the requested volume in \<open>pre\<close> and one for \<open>hit\<close>;
  mappings of other volumes in \<open>pre\<close> are passed over, and \<open>post\<close> is not looked at. With
  two mappings of the volume, the first answered \<open>VolumeUnattached\<close> and the second
  returning, these are two calls.
\<close>

theorem detach_continues_past_unattached:
  assumes auth: "authorize_detach svc (nova_context req) = Inr a"
    and body: "map_of d ''detach'' = Some (JObj dd)" "map_of dd ''volume_id'' = Some vid"
    and inst: "compute_get svc (calls w) (nova_context req) sid = Inr inst"
    and vol: "volume_get svc (calls w @ [Compute_get (nova_context req) sid]) (nova_context req) vid
                = Inr vol"
    and bdms: "compute_get_instance_bdms svc
                 (calls w @ [Compute_get (nova_context req) sid, Volume_get (nova_context req) vid])
                 (nova_context req) inst = Inr (pre @ hit # post)"
    and hit: "json_of (bdm_volume_id hit) = vid"
    and unattached:
      "\<forall>k < length (filter (\<lambda>b. json_of (bdm_volume_id b) = vid) pre).
         \<exists>m. compute_detach_volume svc
                (calls w @ detach_lookups (nova_context req) sid vid inst
                   @ replicate k (Compute_detach_volume (nova_context req) inst vol))
                (nova_context req) inst vol = Inl (VolumeUnattached m)"
    and returns:
      "compute_detach_volume svc
         (calls w @ detach_lookups (nova_context req) sid vid inst
            @ replicate (length (filter (\<lambda>b. json_of (bdm_volume_id b) = vid) pre))
                (Compute_detach_volume (nova_context req) inst vol))
         (nova_context req) inst vol = Inr ()"
  shows "fst (detach svc req sid (JObj d) w) = Inr (Response 202 None)
       \<and> calls (snd (detach svc req sid (JObj d) w)) =
           calls w @ detach_lookups (nova_context req) sid vid inst
             @ replicate (Suc (length (filter (\<lambda>b. json_of (bdm_volume_id b) = vid) pre)))
                 (Compute_detach_volume (nova_context req) inst vol)"
proof -
  let ?D = "Compute_detach_volume (nova_context req) inst vol"
  let ?w = "w\<lparr>logged := logged w @ [detach_audit (nova_context req) sid vid],
              calls := calls w @ detach_lookups (nova_context req) sid vid inst\<rparr>"
  have same: "(\<lambda>b. \<not> differs (bdm_volume_id b) vid) = (\<lambda>b. json_of (bdm_volume_id b) = vid)"
    by (simp add: differs_def)
  from unattached have "\<forall>k < length (filter (\<lambda>b. \<not> differs (bdm_volume_id b) vid) pre).
         \<exists>m. compute_detach_volume svc (calls ?w @ replicate k ?D) (nova_context req) inst vol
              = Inl (VolumeUnattached m)"
    by (simp add: same)
  from detach_scan_past_unattached [OF this, of sid "hit # post"] hit returns
  have "detach_scan svc (nova_context req) inst vol sid vid (pre @ hit # post) ?w =
          (Inr (), ?w\<lparr>calls := calls ?w @ replicate (Suc (length
              (filter (\<lambda>b. json_of (bdm_volume_id b) = vid) pre))) ?D\<rparr>)"
    by (simp add: same differs_def call_defs replicate_append_same)
  then show ?thesis
    by (simp add: detach_def detach_handler_lookups [OF auth body inst vol bdms])
qed

theorem detach_continues_past_unattached_witness:
  "fst (detach unattached_at_first stub_request ''server-1'' (volume_request ''detach'' (JStr V1))
          no_calls)
     = Inr (Response 202 None)
   \<and> filter is_detach_call
       (calls (snd (detach unattached_at_first stub_request ''server-1''
                      (volume_request ''detach'' (JStr V1)) no_calls)))
     = [Compute_detach_volume (RequestContext ''demo'') (Instance ''server-1'') (Volume ''volume-1''),
        Compute_detach_volume (RequestContext ''demo'') (Instance ''server-1'') (Volume ''volume-1'')]
   \<and> fst (detach unattached_between stub_request ''server-1'' (volume_request ''detach'' (JStr V1))
          no_calls)
     = Inr (Response 202 None)
   \<and> filter is_detach_call
       (calls (snd (detach unattached_between stub_request ''server-1''
                      (volume_request ''detach'' (JStr V1)) no_calls)))
     = [Compute_detach_volume (RequestContext ''demo'') (Instance ''server-1'') (Volume ''volume-1''),
        Compute_detach_volume (RequestContext ''demo'') (Instance ''server-1'') (Volume ''volume-1'')]"
  using
    detach_continues_past_unattached
      [where svc = unattached_at_first and req = stub_request and a = True
         and d = "[(''detach'', JObj [(''volume_id'', JStr V1)])]"
         and dd = "[(''volume_id'', JStr V1)]" and vid = "JStr V1" and w = no_calls
         and sid = "''server-1''" and inst = "Instance ''server-1''" and vol = "Volume ''volume-1''"
         and pre = "[\<lparr>bdm_volume_id = Some V1\<rparr>]" and hit = "\<lparr>bdm_volume_id = Some V1\<rparr>"
         and post = "[]"]
    detach_continues_past_unattached
      [where svc = unattached_between and req = stub_request and a = True
         and d = "[(''detach'', JObj [(''volume_id'', JStr V1)])]"
         and dd = "[(''volume_id'', JStr V1)]" and vid = "JStr V1" and w = no_calls
         and sid = "''server-1''" and inst = "Instance ''server-1''" and vol = "Volume ''volume-1''"
         and pre = "[\<lparr>bdm_volume_id = Some V2\<rparr>, \<lparr>bdm_volume_id = Some V1\<rparr>,
                     \<lparr>bdm_volume_id = Some V2\<rparr>]"
         and hit = "\<lparr>bdm_volume_id = Some V1\<rparr>"
         and post = "[\<lparr>bdm_volume_id = Some V1\<rparr>]"]
  by (simp add: authorize_detach_def unattached_at_first_def unattached_between_def
        stub_services_def stub_request_def no_calls_def volume_request_def detach_lookups_def
        V1_def V2_def)

text \<open>
  C3. When no mapping has the requested volume id, or every \<open>detach_volume\<close> tried for a
  mapping that has it is answered with \<open>VolumeUnattached\<close>, \<open>detach\<close> fails with
  \<open>HTTPNotFound\<close> and the text that the volume is not attached to the instance.
\<close>

theorem detach_without_successful_detach_is_NotFound:
  assumes auth: "authorize_detach svc (nova_context req) = Inr b"
    and body: "map_of d ''detach'' = Some (JObj dd)" "map_of dd ''volume_id'' = Some vid"
    and inst: "compute_get svc (calls w) (nova_context req) sid = Inr inst"
    and vol: "volume_get svc (calls w @ [Compute_get (nova_context req) sid]) (nova_context req) vid
                = Inr vol"
    and bdms: "compute_get_instance_bdms svc
                 (calls w @ [Compute_get (nova_context req) sid, Volume_get (nova_context req) vid])
                 (nova_context req) inst = Inr bdms"
    and unattached:
      "\<forall>k < length (filter (\<lambda>b. \<not> differs (bdm_volume_id b) vid) bdms).
         \<exists>m. compute_detach_volume svc
                (calls w @ detach_lookups (nova_context req) sid vid inst
                   @ replicate k (Compute_detach_volume (nova_context req) inst vol))
                (nova_context req) inst vol = Inl (VolumeUnattached m)"
  shows "fst (detach svc req sid (JObj d) w) =
           Inl (HTTPNotFound (Explanation
             (Percent ''Volume %(volume_id)s is not attached to the instance %(server_id)s''
                (Named [(''server_id'', Val (JStr sid)), (''volume_id'', Val vid)]))))"
proof (cases "bdms = []")
  case True
  then show ?thesis
    by (simp add: detach_def detach_handler_lookups [OF auth body inst vol bdms] not_attached_msg_def)
next
  case False
  let ?w = "w\<lparr>logged := logged w @ [detach_audit (nova_context req) sid vid],
              calls := calls w @ detach_lookups (nova_context req) sid vid inst\<rparr>"
  from unattached have "\<forall>k < length (filter (\<lambda>b. \<not> differs (bdm_volume_id b) vid) bdms).
         \<exists>m. compute_detach_volume svc
                (calls ?w @ replicate k (Compute_detach_volume (nova_context req) inst vol))
                (nova_context req) inst vol = Inl (VolumeUnattached m)"
    by simp
  from detach_scan_unattached [OF this] False show ?thesis
    by (simp add: detach_def detach_handler_lookups [OF auth body inst vol bdms] not_attached_msg_def)
qed

theorem detach_without_successful_detach_is_NotFound_witness:
  "fst (detach (stub_services True (\<lambda>h. [\<lparr>bdm_volume_id = Some V1\<rparr>]) (\<lambda>h. Inr ()) (\<lambda>h. Inr ()))
          stub_request ''server-1'' (volume_request ''detach'' (JStr V2)) no_calls)
     = Inl (HTTPNotFound (Explanation
         (Percent ''Volume %(volume_id)s is not attached to the instance %(server_id)s''
            (Named [(''server_id'', Val (JStr ''server-1'')), (''volume_id'', Val (JStr V2))]))))
   \<and> fst (detach (stub_services True
                   (\<lambda>h. [\<lparr>bdm_volume_id = Some V1\<rparr>, \<lparr>bdm_volume_id = Some V2\<rparr>,
                         \<lparr>bdm_volume_id = Some V1\<rparr>])
                   (\<lambda>h. Inr ()) (\<lambda>h. Inl (VolumeUnattached ''unattached'')))
          stub_request ''server-1'' (volume_request ''detach'' (JStr V1)) no_calls)
     = Inl (HTTPNotFound (Explanation
         (Percent ''Volume %(volume_id)s is not attached to the instance %(server_id)s''
            (Named [(''server_id'', Val (JStr ''server-1'')), (''volume_id'', Val (JStr V1))]))))"
  using
    detach_without_successful_detach_is_NotFound
      [of "stub_services True (\<lambda>h. [\<lparr>bdm_volume_id = Some V1\<rparr>]) (\<lambda>h. Inr ()) (\<lambda>h. Inr ())"
          stub_request True "[(''detach'', JObj [(''volume_id'', JStr V2)])]"
          "[(''volume_id'', JStr V2)]" "JStr V2" no_calls "''server-1''" "Instance ''server-1''"
          "Volume ''volume-1''" "[\<lparr>bdm_volume_id = Some V1\<rparr>]"]
    detach_without_successful_detach_is_NotFound
      [of "stub_services True
             (\<lambda>h. [\<lparr>bdm_volume_id = Some V1\<rparr>, \<lparr>bdm_volume_id = Some V2\<rparr>, \<lparr>bdm_volume_id = Some V1\<rparr>])
             (\<lambda>h. Inr ()) (\<lambda>h. Inl (VolumeUnattached ''unattached''))"
          stub_request True "[(''detach'', JObj [(''volume_id'', JStr V1)])]"
          "[(''volume_id'', JStr V1)]" "JStr V1" no_calls "''server-1''" "Instance ''server-1''"
          "Volume ''volume-1''"
          "[\<lparr>bdm_volume_id = Some V1\<rparr>, \<lparr>bdm_volume_id = Some V2\<rparr>, \<lparr>bdm_volume_id = Some V1\<rparr>]"]
  by (simp add: authorize_detach_def stub_services_def stub_request_def no_calls_def
        volume_request_def differs_def V1_def V2_def)

text \<open>
  C4. When the instance has no mappings, \<open>detach\<close> fails with \<open>HTTPNotFound\<close> after the
  three lookups; \<open>detach_volume\<close> is not called. The state of the trace before the request
  is arbitrary, so this is also the second of two requests, after the first detached the
  only volume.
\<close>

theorem detach_with_no_mappings_is_NotFound:
  assumes auth: "authorize_detach svc (nova_context req) = Inr b"
    and body: "map_of d ''detach'' = Some (JObj dd)" "map_of dd ''volume_id'' = Some vid"
    and inst: "compute_get svc (calls w) (nova_context req) sid = Inr inst"
    and vol: "volume_get svc (calls w @ [Compute_get (nova_context req) sid]) (nova_context req) vid
                = Inr vol"
    and bdms: "compute_get_instance_bdms svc
                 (calls w @ [Compute_get (nova_context req) sid, Volume_get (nova_context req) vid])
                 (nova_context req) inst = Inr []"
  shows "fst (detach svc req sid (JObj d) w) =
           Inl (HTTPNotFound (Explanation
             (Percent ''Volume %(volume_id)s is not attached to the instance %(server_id)s''
                (Named [(''server_id'', Val (JStr sid)), (''volume_id'', Val vid)]))))
       \<and> calls (snd (detach svc req sid (JObj d) w)) =
           calls w @ [Compute_get (nova_context req) sid, Volume_get (nova_context req) vid,
                      Compute_get_instance_bdms (nova_context req) inst]
       \<and> filter is_detach_call (calls (snd (detach svc req sid (JObj d) w))) =
           filter is_detach_call (calls w)"
  by (simp add: detach_def detach_handler_lookups [OF auth body inst vol bdms] not_attached_msg_def
       detach_lookups_def)

theorem detach_with_no_mappings_is_NotFound_witness:
  "fst (detach attached_until_detached stub_request ''server-1''
          (volume_request ''detach'' (JStr V1)) no_calls)
     = Inr (Response 202 None)
   \<and> fst (detach attached_until_detached stub_request ''server-1''
            (volume_request ''detach'' (JStr V1))
            (snd (detach attached_until_detached stub_request ''server-1''
                    (volume_request ''detach'' (JStr V1)) no_calls)))
     = Inl (HTTPNotFound (Explanation
         (Percent ''Volume %(volume_id)s is not attached to the instance %(server_id)s''
            (Named [(''server_id'', Val (JStr ''server-1'')), (''volume_id'', Val (JStr V1))]))))
   \<and> filter is_detach_call
       (calls (snd (detach attached_until_detached stub_request ''server-1''
            (volume_request ''detach'' (JStr V1))
            (snd (detach attached_until_detached stub_request ''server-1''
                    (volume_request ''detach'' (JStr V1)) no_calls)))))
     = [Compute_detach_volume (RequestContext ''demo'') (Instance ''server-1'') (Volume ''volume-1'')]"
proof -
  have first: "detach attached_until_detached stub_request ''server-1''
                 (volume_request ''detach'' (JStr V1)) no_calls
     = (Inr (Response 202 None),
        \<lparr>calls = [Compute_get (RequestContext ''demo'') ''server-1'',
                  Volume_get (RequestContext ''demo'') (JStr V1),
                  Compute_get_instance_bdms (RequestContext ''demo'') (Instance ''server-1''),
                  Compute_detach_volume (RequestContext ''demo'') (Instance ''server-1'')
                    (Volume ''volume-1'')],
         logged = [detach_audit (RequestContext ''demo'') ''server-1'' (JStr V1)]\<rparr>)"
    by (simp add: detach_def detach_handler_def authorize_detach_def attached_until_detached_def
          stub_services_def stub_request_def no_calls_def volume_request_def Let_def call_defs
          differs_def detach_audit_def)
  show ?thesis
    using detach_with_no_mappings_is_NotFound
      [of attached_until_detached stub_request True
          "[(''detach'', JObj [(''volume_id'', JStr V1)])]" "[(''volume_id'', JStr V1)]" "JStr V1"
          "snd (detach attached_until_detached stub_request ''server-1''
                  (volume_request ''detach'' (JStr V1)) no_calls)"
          "''server-1''" "Instance ''server-1''" "Volume ''volume-1''"]
    by (simp add: first)
       (simp add: authorize_detach_def attached_until_detached_def stub_services_def
          stub_request_def volume_request_def)
qed

text \<open>
  C8, at a \<open>detach\<close> request whose \<open>detach\<close> object has no \<open>volume_id\<close>, and at one whose
  \<open>detach\<close> value is \<open>null\<close>: the handler reads \<open>body['detach']['volume_id']\<close> without a
  check, and what is raised is Python's \<open>KeyError\<close> or \<open>TypeError\<close>, not \<open>HTTPBadRequest\<close>.
\<close>

theorem detach_with_malformed_body_is_not_BadRequest:
  "detach (stub_services True (\<lambda>h. []) (\<lambda>h. Inr ()) (\<lambda>h. Inr ())) stub_request ''server-1''
     (JObj [(''detach'', JObj [])]) no_calls
     = (Inl (KeyError ''volume_id''), no_calls)
   \<and> detach (stub_services True (\<lambda>h. []) (\<lambda>h. Inr ()) (\<lambda>h. Inr ())) stub_request ''server-1''
     (JObj [(''detach'', JNull)]) no_calls
     = (Inl TypeError, no_calls)"
  by (simp add: detach_def detach_handler_def authorize_detach_def stub_services_def)

end
